theory Spec2Isabelle
  imports Complex_Main "HOL-Library.Sublist"
begin

section \<open>The analyze route of ai-text-tagger\<close>

text \<open>
  A shallow embedding of \<^verbatim>\<open>src/app/api/analyze/route.ts\<close>: the constants, the
  helper functions \<^verbatim>\<open>makeAICall\<close>, \<^verbatim>\<open>processProducts\<close>, \<^verbatim>\<open>processIssues\<close> and
  the handler \<^verbatim>\<open>POST\<close>.
\<close>

subsection \<open>JavaScript strings\<close>

text \<open>
  A JavaScript string is a sequence of UTF-16 code units. The model is \<open>string\<close>, a list
  of 8-bit characters, read as the code points U+0000 to U+00FF; every string constant of
  the source is ASCII. The built-in methods the source calls are modelled on that range.

  \<^verbatim>\<open>String.prototype.trim\<close> removes white space and line terminators at both ends: in
  this range TAB, LF, VT, FF, CR, SPACE and NBSP (U+00A0).
\<close>

definition isWhiteSpace :: "char \<Rightarrow> bool" where
  "isWhiteSpace c = (c \<in> set [CHR 0x09, CHR 0x0A, CHR 0x0B, CHR 0x0C, CHR 0x0D, CHR 0x20, CHR 0xA0])"

definition trimStart :: "string \<Rightarrow> string" where
  "trimStart s = dropWhile isWhiteSpace s"

definition trimEnd :: "string \<Rightarrow> string" where
  "trimEnd s = rev (dropWhile isWhiteSpace (rev s))"

definition trim :: "string \<Rightarrow> string" where
  "trim s = trimEnd (trimStart s)"

text \<open>
  \<^verbatim>\<open>String.prototype.toLowerCase\<close>: in this range the upper-case letters are A to Z and
  U+00C0 to U+00DE without the multiplication sign U+00D7; each has its lower-case letter
  32 code points above, which is the same code with bit 5 set.
\<close>

definition isUpperCase :: "char \<Rightarrow> bool" where
  "isUpperCase c =
     (let n = (of_char c :: nat)
      in (65 \<le> n \<and> n \<le> 90) \<or> (192 \<le> n \<and> n \<le> 222 \<and> n \<noteq> 215))"

fun setBit5 :: "char \<Rightarrow> char" where
  "setBit5 (Char b0 b1 b2 b3 b4 b5 b6 b7) = Char b0 b1 b2 b3 b4 True b6 b7"

definition toLowerCaseChar :: "char \<Rightarrow> char" where
  "toLowerCaseChar c = (if isUpperCase c then setBit5 c else c)"

definition toLowerCase :: "string \<Rightarrow> string" where
  "toLowerCase s = map toLowerCaseChar s"

text \<open>
  \<^verbatim>\<open>s.split(',')\<close>: the pieces between the separators; a string with no separator,
  the empty string too, is one piece.
\<close>

fun split :: "char \<Rightarrow> string \<Rightarrow> string list" where
  "split sep [] = [[]]"
| "split sep (c # cs) =
     (if c = sep then [] # split sep cs
      else (case split sep cs of
              [] \<Rightarrow> [[c]]
            | piece # pieces \<Rightarrow> (c # piece) # pieces))"

text \<open>\<^verbatim>\<open>hay.includes(needle)\<close>: \<open>needle\<close> occurs in \<open>hay\<close> as a contiguous run.\<close>

definition includes_str :: "string \<Rightarrow> string \<Rightarrow> bool" where
  "includes_str hay needle = sublist needle hay"

text \<open>\<^verbatim>\<open>xs.join(sep)\<close>.\<close>

fun join :: "string \<Rightarrow> string list \<Rightarrow> string" where
  "join sep [] = []"
| "join sep [x] = x"
| "join sep (x # y # ys) = x @ sep @ join sep (y # ys)"

subsection \<open>Constants\<close>

text \<open>
  \<^verbatim>\<open>SENTIMENT_MAP\<close> is an object literal; its own properties are the three entries. A
  property read \<^verbatim>\<open>SENTIMENT_MAP[key]\<close> follows the prototype chain, so besides the own
  properties it finds what \<^verbatim>\<open>Object.prototype\<close> has under \<open>key\<close>. The handler reads
  with a lower-cased key, and the names of \<^verbatim>\<open>Object.prototype\<close> that are their own
  lower-casing are \<^verbatim>\<open>constructor\<close> (the function \<^verbatim>\<open>Object\<close>) and \<^verbatim>\<open>__proto__\<close>
  (the accessor, which yields \<^verbatim>\<open>Object.prototype\<close>). Any other key reads as
  \<^verbatim>\<open>undefined\<close>.
\<close>

datatype sentiment_value =
    Entry (label: string) (color: string)
  | Undefined
  | ObjectConstructor
  | ObjectPrototype

definition SENTIMENT_MAP :: "(string \<times> sentiment_value) list" where
  "SENTIMENT_MAP =
    [(''positive'', Entry ''Positive'' ''bg-green-500/10 text-green-500 hover:bg-green-500/20''),
     (''negative'', Entry ''Negative'' ''bg-red-500/10 text-red-500 hover:bg-red-500/20''),
     (''neutral'', Entry ''Neutral'' ''bg-blue-500/10 text-blue-500 hover:bg-blue-500/20'')]"

definition SENTIMENT_MAP_get :: "string \<Rightarrow> sentiment_value" where
  "SENTIMENT_MAP_get key =
     (case map_of SENTIMENT_MAP key of
        Some entry \<Rightarrow> entry
      | None \<Rightarrow>
          if key = ''constructor'' then ObjectConstructor
          else if key = ''__proto__'' then ObjectPrototype
          else Undefined)"

definition CLOUDFLARE_PRODUCTS :: "string list" where
  "CLOUDFLARE_PRODUCTS =
    [''AI Gateway'', ''Browser Rendering'', ''Calls'', ''Cloudflare for Platforms'',
     ''Email Routing'', ''Hyperdrive'', ''KV'', ''WAF'', ''Pages Gateway'', ''Pub/Sub'',
     ''Pulumi'', ''Queues'', ''Magic Transit'', ''Bot Management'', ''Workers'', ''Pages'',
     ''R2'', ''D1'', ''Images'', ''Stream'', ''DNS'', ''SSL/TLS'', ''DDoS Protection'',
     ''Access'', ''Zero Trust'', ''Spectrum'', ''Load Balancing'', ''Durable Objects'',
     ''Tenant'', ''TURN Service'', ''Turnstile'', ''Vectorize'', ''Waiting Room'',
     ''Cloudflare Web Analytics'', ''Workers AI'', ''Workers Analytics Engine'',
     ''Workers for Platforms'', ''Workflows'', ''Zaraz'']"

definition ISSUE_LABELS :: "string list" where
  "ISSUE_LABELS =
    [''Bug Report'', ''Feature Request'', ''Performance Issue'', ''Security Concern'',
     ''Documentation Need'', ''Integration Problem'', ''Configuration Help'',
     ''Billing Question'', ''Service Disruption'', ''API Issue'', ''General'']"

definition AI_MODEL :: string where
  "AI_MODEL = ''@cf/meta/llama-3.1-70b-instruct''"

definition LF :: string where
  "LF = [CHR 0x0A]"

definition PROMPTS_sentiment :: string where
  \<open>PROMPTS_sentiment = join LF
    [''You are a sentiment analysis AI specializing in Cloudflare-related feedback. Analyze the given text and determine if it expresses a positive, negative, or neutral sentiment towards Cloudflare's products, services, or the company in general.'',
     '''',
     ''Guidelines:'',
     ''- Respond with exactly one word: "positive", "negative", or "neutral"'',
     ''- "positive": User expresses satisfaction, praise, or enthusiasm about Cloudflare'',
     ''- "negative": User expresses dissatisfaction, criticism, or frustration with Cloudflare'',
     ''- "neutral": Factual statements, general inquiries, or balanced feedback about Cloudflare'',
     '''',
     ''Focus on Cloudflare-specific context and user sentiment. Respond with only one of these three words, nothing else.'']\<close>

definition PROMPTS_products :: string where
  \<open>PROMPTS_products = join LF
    [''You are a Cloudflare product detection AI assistant. Analyze the text and identify any mentioned Cloudflare products or services from the following list:'',
     '''',
     join '', '' CLOUDFLARE_PRODUCTS,
     '''',
     ''Guidelines:'',
     ''- Return only product names from the provided list'',
     ''- Multiple products may be mentioned'',
     ''- If no products are mentioned, respond with "none"'',
     ''- Separate multiple products with commas'',
     ''- Match products even if mentioned with slight variations'',
     ''- Do not add any explanation or additional text'',
     '''',
     ''Example responses:'',
     ''"WAF, Workers"'',
     ''"Pages, Hyperdrive, D1"'',
     ''"R2"'',
     ''"none"'']\<close>

definition PROMPTS_issues :: string where
  \<open>PROMPTS_issues = join LF
    [''You are an AI assistant specialized in categorizing feedback into appropriate categories. Categorize the text into the most appropriate category from the following list:'',
     '''',
     join '', '' ISSUE_LABELS,
     '''',
     ''Guidelines:'',
     ''- Return exactly one issue type from the list above'',
     ''- Use exact spelling and capitalization as shown'',
     ''- Choose the most relevant category based on the main concern'',
     ''- If no clear issue type matches, respond with "General Question"'',
     ''- Do not add any explanation or additional text'',
     '''',
     ''Example responses:'',
     ''"Bug Report"'',
     ''"General"'',
     ''"Billing Question"'']\<close>

subsection \<open>The normalizers\<close>

definition processProducts :: "string \<Rightarrow> string list" where
  "processProducts response =
     (if toLowerCase response = ''none'' then []
      else filter
             (\<lambda>p. list_ex (\<lambda>cp. includes_str (toLowerCase p) (toLowerCase cp)) CLOUDFLARE_PRODUCTS)
             (map trim (split (CHR '','') response)))"

definition processIssues :: "string \<Rightarrow> string list" where
  "processIssues response =
     (let issue = trim response
      in if list_ex (\<lambda>label. label = issue) ISSUE_LABELS then [issue]
         else [''General Question''])"

subsection \<open>Values crossing the handler's boundary\<close>

text \<open>
  The request body as \<^verbatim>\<open>req.json()\<close> parses it. A number is the value of the double;
  a JSON text cannot denote NaN, and a literal out of range parses as an infinity. An
  object lists its members in the order of the text.
\<close>

datatype jsnumber = Num rat | PosInfinity | NegInfinity

datatype json =
    JNull
  | JBool bool
  | JNumber jsnumber
  | JString string
  | JArray "json list"
  | JObject "(string \<times> json) list"

text \<open>
  A thrown value, as the \<^verbatim>\<open>catch\<close> block tells them apart:
  \<^verbatim>\<open>error instanceof Error ? error.message : 'Unknown error'\<close>.
\<close>

datatype thrown = Error (message: string) | NotAnError

text \<open>
  A promise, by the way it ends: fulfilled or rejected, at a position in the order in
  which the event loop settles promises, or never settled.
\<close>

datatype 'a promise = Fulfilled nat 'a | Rejected nat thrown | Pending

text \<open>
  What \<^verbatim>\<open>ai.run\<close> resolves to, as far as \<^verbatim>\<open>result.response.trim()\<close> sees it: an
  object whose \<^verbatim>\<open>response\<close> is a string, or anything else, on which the expression
  throws a \<^verbatim>\<open>TypeError\<close> with the engine's message.
\<close>

datatype ai_result = Response string | Malformed string

text \<open>One invocation of \<^verbatim>\<open>ai.run\<close>: the model, the inputs and the gateway options.\<close>

record ai_call =
  model :: string
  messages :: "(string \<times> json) list"
  temperature :: rat
  max_tokens :: nat
  gateway_id :: string
  skipCache :: bool
  cacheTtl :: nat

type_synonym ai_client = "ai_call \<Rightarrow> ai_result promise"

text \<open>
  The bindings \<^verbatim>\<open>ctx.env.AI\<close> and \<^verbatim>\<open>ctx.env.CLOUDFLARE_GATEWAY_ID\<close>; \<open>None\<close> is
  \<^verbatim>\<open>undefined\<close>.
\<close>

record env =
  AI :: "ai_client option"
  CLOUDFLARE_GATEWAY_ID :: "string option"

text \<open>
  What the handler runs on: \<^verbatim>\<open>getRequestContext()\<close> throws or returns a context
  (\<open>None\<close> when the context or its \<^verbatim>\<open>env\<close> is missing, which \<^verbatim>\<open>ctx?.env?.AI\<close>
  reads as \<^verbatim>\<open>undefined\<close>), and the engine's message for the \<^verbatim>\<open>TypeError\<close> of
  destructuring \<^verbatim>\<open>null\<close>.
\<close>

record platform =
  getRequestContext :: "thrown + env option"
  nullDestructureMessage :: string

record AnalysisResult =
  sentiment :: sentiment_value
  products :: "string list"
  issues :: "string list"

text \<open>The argument of \<^verbatim>\<open>NextResponse.json\<close> and the status.\<close>

datatype body =
    ErrorBody (error: string) (details: "string option")
  | ResultBody AnalysisResult

record response =
  status :: nat
  body :: body

subsection \<open>makeAICall\<close>

text \<open>The arguments of \<^verbatim>\<open>ai.run\<close>.\<close>

definition ai_request :: "string \<Rightarrow> string \<Rightarrow> json \<Rightarrow> ai_call" where
  "ai_request gateway prompt text =
     \<lparr>model = AI_MODEL,
      messages = [(''system'', JString prompt), (''user'', text)],
      temperature = 0,
      max_tokens = 150,
      gateway_id = gateway,
      skipCache = False,
      cacheTtl = 3600000\<rparr>"

text \<open>
  The rest of \<^verbatim>\<open>makeAICall\<close> after \<^verbatim>\<open>await ai.run(...)\<close>: a rejection of
  \<^verbatim>\<open>ai.run\<close> (or what it threw) is rethrown, \<^verbatim>\<open>result.response.trim()\<close> is
  returned, or its \<^verbatim>\<open>TypeError\<close> is thrown; nothing happens while \<^verbatim>\<open>ai.run\<close> is
  pending.
\<close>

fun await_response :: "ai_result promise \<Rightarrow> string promise" where
  "await_response (Fulfilled t (Response r)) = Fulfilled t (trim r)"
| "await_response (Fulfilled t (Malformed m)) = Rejected t (Error m)"
| "await_response (Rejected t e) = Rejected t e"
| "await_response Pending = Pending"

text \<open>
  \<^verbatim>\<open>makeAICall\<close> invokes \<^verbatim>\<open>ai.run\<close> at once and suspends. The pair is the invocation
  made and the promise returned.
\<close>

definition makeAICall ::
  "ai_client \<Rightarrow> string \<Rightarrow> string \<Rightarrow> json \<Rightarrow> ai_call \<times> string promise" where
  "makeAICall ai gateway prompt text =
     (let call = ai_request gateway prompt text
      in (call, await_response (ai call)))"

subsection \<open>Promise.all\<close>

text \<open>
  \<^verbatim>\<open>Promise.all\<close> rejects with the reason of the input that rejects first, whatever
  the others do; it fulfils with all the values once every input has fulfilled; otherwise
  it stays pending. Of two rejections at the same position the one earlier in the array
  is reported, as for two promises that are already rejected when \<^verbatim>\<open>Promise.all\<close>
  subscribes to them.
\<close>

fun first_rejection :: "'a promise list \<Rightarrow> (nat \<times> thrown) option" where
  "first_rejection [] = None"
| "first_rejection (Rejected t e # ps) =
     (case first_rejection ps of
        None \<Rightarrow> Some (t, e)
      | Some (t', e') \<Rightarrow> if t' < t then Some (t', e') else Some (t, e))"
| "first_rejection (p # ps) = first_rejection ps"

fun all_fulfilled :: "'a promise list \<Rightarrow> (nat \<times> 'a list) option" where
  "all_fulfilled [] = Some (0, [])"
| "all_fulfilled (Fulfilled t v # ps) =
     (case all_fulfilled ps of
        None \<Rightarrow> None
      | Some (t', vs) \<Rightarrow> Some (max t t', v # vs))"
| "all_fulfilled (p # ps) = None"

definition Promise_all :: "'a promise list \<Rightarrow> 'a list promise" where
  "Promise_all ps =
     (case first_rejection ps of
        Some (t, e) \<Rightarrow> Rejected t e
      | None \<Rightarrow>
          (case all_fulfilled ps of
             Some (t, vs) \<Rightarrow> Fulfilled t vs
           | None \<Rightarrow> Pending))"

subsection \<open>The handler\<close>

text \<open>\<^verbatim>\<open>!v\<close> is false: \<open>v\<close> is none of \<^verbatim>\<open>null\<close>, \<^verbatim>\<open>false\<close>, a zero and the empty string.\<close>

fun truthy :: "json \<Rightarrow> bool" where
  "truthy JNull = False"
| "truthy (JBool b) = b"
| "truthy (JNumber n) = (n \<noteq> Num 0)"
| "truthy (JString s) = (s \<noteq> [])"
| "truthy (JArray xs) = True"
| "truthy (JObject ms) = True"

text \<open>
  \<^verbatim>\<open>const { text } = value\<close>: destructuring \<^verbatim>\<open>null\<close> throws; an object gives its
  member \<^verbatim>\<open>text\<close> (of a repeated member the parser keeps the last); any other value has
  no such property. \<open>None\<close> is \<^verbatim>\<open>undefined\<close>.
\<close>

fun text_of :: "json \<Rightarrow> json option" where
  "text_of (JObject ms) = map_of (rev ms) ''text''"
| "text_of v = None"

definition destructure_text :: "string \<Rightarrow> json \<Rightarrow> thrown + json option" where
  "destructure_text msg v = (if v = JNull then Inl (Error msg) else Inr (text_of v))"

text \<open>The \<^verbatim>\<open>catch\<close> block.\<close>

definition failure :: "thrown \<Rightarrow> response" where
  "failure e =
     \<lparr>status = 500,
      body = ErrorBody ''Failed to analyze text''
               (Some (case e of Error m \<Rightarrow> m | NotAnError \<Rightarrow> ''Unknown error''))\<rparr>"

definition bad_request :: response where
  "bad_request = \<lparr>status = 400, body = ErrorBody ''Text is required'' None\<rparr>"

definition ok :: "AnalysisResult \<Rightarrow> response" where
  "ok result = \<lparr>status = 200, body = ResultBody result\<rparr>"

text \<open>
  \<^verbatim>\<open>POST\<close>, given the platform, the outcome of \<^verbatim>\<open>req.json()\<close> and nothing else: it
  returns the invocations of \<^verbatim>\<open>ai.run\<close> in the order they were made, and the response,
  \<open>None\<close> when the handler never returns one. The first check passes when both bindings
  are truthy: the client is there and the gateway id is a non-empty string. The three \<^verbatim>\<open>makeAICall\<close> expressions of
  the array literal are evaluated, each up to its \<^verbatim>\<open>await\<close> and so past its call of
  \<^verbatim>\<open>ai.run\<close>, before \<^verbatim>\<open>Promise.all\<close> is applied and awaited. \<^verbatim>\<open>Promise.all\<close> of
  three promises fulfils with three values, so the last branch is never taken. The
  \<^verbatim>\<open>console.error\<close> of the \<^verbatim>\<open>catch\<close> block writes a log and is left out.
\<close>

definition POST :: "platform \<Rightarrow> thrown + json \<Rightarrow> ai_call list \<times> response option" where
  "POST pf req_json =
     (case getRequestContext pf of
        Inl e \<Rightarrow> ([], Some (failure e))
      | Inr ctx \<Rightarrow>
          (case (case ctx of None \<Rightarrow> None | Some env \<Rightarrow> AI env,
                 case ctx of None \<Rightarrow> None | Some env \<Rightarrow> CLOUDFLARE_GATEWAY_ID env) of
             (Some ai, Some (g # gs)) \<Rightarrow>
               (case req_json of
                  Inl e \<Rightarrow> ([], Some (failure e))
                | Inr parsed \<Rightarrow>
                    (case destructure_text (nullDestructureMessage pf) parsed of
                       Inl e \<Rightarrow> ([], Some (failure e))
                     | Inr None \<Rightarrow> ([], Some bad_request)
                     | Inr (Some text) \<Rightarrow>
                         if \<not> truthy text then ([], Some bad_request)
                         else
                           let (c1, p1) = makeAICall ai (g # gs) PROMPTS_sentiment text;
                               (c2, p2) = makeAICall ai (g # gs) PROMPTS_products text;
                               (c3, p3) = makeAICall ai (g # gs) PROMPTS_issues text
                           in ([c1, c2, c3],
                               case Promise_all [p1, p2, p3] of
                                 Pending \<Rightarrow> None
                               | Rejected t e \<Rightarrow> Some (failure e)
                               | Fulfilled t [sentimentResponse, productsResponse, issuesResponse] \<Rightarrow>
                                   Some (ok \<lparr>sentiment = SENTIMENT_MAP_get (toLowerCase sentimentResponse),
                                             products = processProducts productsResponse,
                                             issues = processIssues issuesResponse\<rparr>)
                               | Fulfilled t vs \<Rightarrow> None)))
           | _ \<Rightarrow> ([], Some (failure (Error ''Required environment variables are not set'')))))"

subsection \<open>Vocabulary of the properties\<close>

text \<open>
  A classification call fails when \<^verbatim>\<open>ai.run\<close> rejects (or throws), or resolves to
  something without a string \<^verbatim>\<open>response\<close>.
\<close>

fun fails :: "ai_result promise \<Rightarrow> bool" where
  "fails (Rejected t e) = True"
| "fails (Fulfilled t (Malformed m)) = True"
| "fails p = False"

subsection \<open>Test doubles\<close>

text \<open>
  An inference client that answers by the system prompt it is given: the first promise
  for the sentiment prompt, the second for the products prompt, the third for any other.
\<close>

definition mock_ai ::
  "ai_result promise \<Rightarrow> ai_result promise \<Rightarrow> ai_result promise \<Rightarrow> ai_client" where
  "mock_ai s p i call =
     (if map_of (messages call) ''system'' = Some (JString PROMPTS_sentiment) then s
      else if map_of (messages call) ''system'' = Some (JString PROMPTS_products) then p
      else i)"

definition mock_platform :: "ai_client \<Rightarrow> platform" where
  "mock_platform ai =
     \<lparr>getRequestContext = Inr (Some \<lparr>AI = Some ai, CLOUDFLARE_GATEWAY_ID = Some ''gw-1''\<rparr>),
      nullDestructureMessage = ''Cannot destructure property of null''\<rparr>"

definition request_with_text :: "json \<Rightarrow> thrown + json" where
  "request_with_text text = Inr (JObject [(''text'', text)])"

text \<open>All three calls answer within the grammar of their prompts.\<close>

definition mock_ok :: ai_client where
  "mock_ok = mock_ai (Fulfilled 1 (Response ''neutral'')) (Fulfilled 2 (Response ''none''))
               (Fulfilled 3 (Response ''General''))"

text \<open>Two clients with the same completions, settled in different orders.\<close>

definition ai_A :: ai_client where
  "ai_A = mock_ai (Fulfilled 1 (Response ''Negative'')) (Fulfilled 2 (Response ''R2, Foo''))
            (Fulfilled 3 (Response ''Bug Report''))"

definition ai_B :: ai_client where
  "ai_B = mock_ai (Fulfilled 9 (Response ''Negative'')) (Fulfilled 8 (Response ''R2, Foo''))
            (Fulfilled 7 (Response ''Bug Report''))"

definition platform_B :: platform where
  "platform_B =
     \<lparr>getRequestContext = Inr (Some \<lparr>AI = Some ai_B, CLOUDFLARE_GATEWAY_ID = Some ''gw-2''\<rparr>),
      nullDestructureMessage = ''null has no properties''\<rparr>"

text \<open>The product detection call is rejected; the other two succeed.\<close>

definition ai_products_down :: ai_client where
  "ai_products_down =
     mock_ai (Fulfilled 1 (Response ''positive'')) (Rejected 2 (Error ''gateway timeout''))
       (Fulfilled 3 (Response ''Bug Report''))"

text \<open>The product detection call answers with more than names of the catalog.\<close>

definition ai_loose :: ai_client where
  "ai_loose =
     mock_ai (Fulfilled 1 (Response ''Negative'')) (Fulfilled 2 (Response ''Cloudflare R2, Foo, pages''))
       (Fulfilled 3 (Response ''Bug Report''))"

text \<open>The sentiment call never settles.\<close>

definition ai_hang :: ai_client where
  "ai_hang = mock_ai Pending (Fulfilled 1 (Response ''R2'')) (Fulfilled 2 (Response ''General''))"

text \<open>The sentiment call answers outside its grammar.\<close>

definition ai_unsure :: ai_client where
  "ai_unsure = mock_ai (Fulfilled 1 (Response ''Mixed'')) (Fulfilled 2 (Response ''none''))
                 (Fulfilled 3 (Response ''General''))"

definition ai_proto :: ai_client where
  "ai_proto = mock_ai (Fulfilled 1 (Response ''__proto__'')) (Fulfilled 2 (Response ''none''))
                (Fulfilled 3 (Response ''General''))"

section \<open>Properties\<close>

subsection \<open>Strings\<close>

lemma dropWhile_keeps: "x \<in> set xs \<Longrightarrow> \<not> P x \<Longrightarrow> x \<in> set (dropWhile P xs)"
  by (induction xs) auto

lemma trim_keeps: "x \<in> set s \<Longrightarrow> \<not> isWhiteSpace x \<Longrightarrow> x \<in> set (trim s)"
  by (simp add: trim_def trimEnd_def trimStart_def dropWhile_keeps)

lemma trimEnd_fixed: "s = [] \<or> \<not> isWhiteSpace (last s) \<Longrightarrow> trimEnd s = s"
  by (cases s rule: rev_cases) (auto simp: trimEnd_def)

lemma trimStart_fixed: "s = [] \<or> \<not> isWhiteSpace (hd s) \<Longrightarrow> trimStart s = s"
  by (cases s) (auto simp: trimStart_def)

lemma trim_fixed:
  assumes "s = [] \<or> (\<not> isWhiteSpace (hd s) \<and> \<not> isWhiteSpace (last s))"
  shows "trim s = s"
  using assms by (auto simp: trim_def trimStart_fixed trimEnd_fixed)

lemma trimEnd_last: "trimEnd s \<noteq> [] \<Longrightarrow> \<not> isWhiteSpace (last (trimEnd s))"
  unfolding trimEnd_def
  by (metis hd_dropWhile last_rev rev_is_Nil_conv rev_rev_ident)

lemma trimEnd_hd: "trimEnd s \<noteq> [] \<Longrightarrow> hd (trimEnd s) = hd s"
proof (induction s rule: rev_induct)
  case Nil
  then show ?case by (simp add: trimEnd_def)
next
  case (snoc x xs)
  then show ?case
    by (cases "isWhiteSpace x"; cases xs) (auto simp: trimEnd_def)
qed

lemma trimStart_hd: "trimStart s \<noteq> [] \<Longrightarrow> \<not> isWhiteSpace (hd (trimStart s))"
  unfolding trimStart_def by (rule hd_dropWhile)

text \<open>Trimming a trimmed string changes nothing.\<close>

lemma trim_trim: "trim (trim s) = trim s"
proof (cases "trim s = []")
  case True
  have "trim [] = []" by (simp add: trim_def trimStart_def trimEnd_def)
  with True show ?thesis by simp
next
  case False
  then have ne: "trimEnd (trimStart s) \<noteq> []" by (simp add: trim_def)
  then have "trimStart s \<noteq> []" by (auto simp: trimEnd_def)
  then have "\<not> isWhiteSpace (hd (trimStart s))" by (rule trimStart_hd)
  with ne have "\<not> isWhiteSpace (hd (trim s))" by (simp add: trim_def trimEnd_hd)
  moreover from ne have "\<not> isWhiteSpace (last (trim s))" by (simp add: trim_def trimEnd_last)
  ultimately show ?thesis by (simp add: trim_fixed)
qed

lemma split_no_sep: "sep \<notin> set s \<Longrightarrow> split sep s = [s]"
  by (induction s) auto

lemma whitespace_lower: "isWhiteSpace c \<Longrightarrow> toLowerCaseChar c = c"
  by (auto simp: isWhiteSpace_def toLowerCaseChar_def isUpperCase_def)

lemma comma_lower: "toLowerCaseChar (CHR '','') = CHR '',''"
  by (simp add: toLowerCaseChar_def isUpperCase_def)

text \<open>A string that lower-cases to \<open>none\<close> has no white space and no comma.\<close>

lemma lower_none_chars:
  assumes "toLowerCase s = ''none''" and "c \<in> set s"
  shows "\<not> isWhiteSpace c \<and> c \<noteq> CHR '',''"
proof -
  from assms have "toLowerCaseChar c \<in> set ''none''"
    unfolding toLowerCase_def by (metis image_eqI set_map)
  then show ?thesis
    using whitespace_lower [of c] comma_lower
    by (auto simp: isWhiteSpace_def)
qed

lemma lower_none_trim:
  assumes "toLowerCase s = ''none''"
  shows "trim s = s"
proof -
  from assms have "s \<noteq> []" by (auto simp: toLowerCase_def)
  then have "hd s \<in> set s" "last s \<in> set s" by simp_all
  with assms show ?thesis by (auto intro!: trim_fixed dest: lower_none_chars)
qed

subsection \<open>The products normalizer\<close>

lemma none_matches_nothing:
  "\<not> list_ex (\<lambda>cp. includes_str ''none'' (toLowerCase cp)) CLOUDFLARE_PRODUCTS"
  by code_simp

lemma processProducts_eq:
  "processProducts s =
     (if toLowerCase (trim s) = ''none'' then []
      else filter
             (\<lambda>p. \<exists>cp \<in> set CLOUDFLARE_PRODUCTS. includes_str (toLowerCase p) (toLowerCase cp))
             (map trim (split (CHR '','') s)))"
proof (cases "toLowerCase (trim s) = ''none''")
  case True
  show ?thesis
  proof (cases "toLowerCase s = ''none''")
    case True
    then show ?thesis by (simp add: processProducts_def lower_none_trim)
  next
    case False
    have "CHR '','' \<notin> set s"
    proof
      assume "CHR '','' \<in> set s"
      then have "CHR '','' \<in> set (trim s)"
        by (rule trim_keeps) (simp add: isWhiteSpace_def)
      with True show False by (auto dest: lower_none_chars)
    qed
    then have "split (CHR '','') s = [s]" by (rule split_no_sep)
    with True False none_matches_nothing show ?thesis
      by (simp add: processProducts_def)
  qed
next
  case False
  then have "toLowerCase s \<noteq> ''none''" using lower_none_trim [of s] by auto
  with False show ?thesis by (simp add: processProducts_def list_ex_iff)
qed

text \<open>
  C2. For every completion the products normalizer returns the empty list when the
  trimmed completion lower-cases to \<open>none\<close>, and otherwise the comma-separated, trimmed
  segments whose lower-casing contains the lower-cased name of a catalog entry, in their
  order and with repetitions kept. \<open>none\<close> in any case gives the empty list,
  \<open>WAF, Workers\<close> gives both names in that order, \<open>Foo, R2\<close> gives \<open>R2\<close>.
\<close>

theorem processProducts_normalizer:
  "processProducts s =
     (if toLowerCase (trim s) = ''none'' then []
      else filter
             (\<lambda>p. \<exists>cp \<in> set CLOUDFLARE_PRODUCTS. includes_str (toLowerCase p) (toLowerCase cp))
             (map trim (split (CHR '','') s)))
   \<and> processProducts ''none'' = []
   \<and> processProducts ''NONE'' = []
   \<and> processProducts ''None'' = []
   \<and> processProducts ''WAF, Workers'' = [''WAF'', ''Workers'']
   \<and> processProducts ''Foo, R2'' = [''R2'']
   \<and> processProducts ''R2, WAF, R2'' = [''R2'', ''WAF'', ''R2'']"
proof -
  have "processProducts ''none'' = []" by code_simp
  moreover have "processProducts ''NONE'' = []" by code_simp
  moreover have "processProducts ''None'' = []" by code_simp
  moreover have "processProducts ''WAF, Workers'' = [''WAF'', ''Workers'']" by code_simp
  moreover have "processProducts ''Foo, R2'' = [''R2'']" by code_simp
  moreover have "processProducts ''R2, WAF, R2'' = [''R2'', ''WAF'', ''R2'']" by code_simp
  ultimately show ?thesis using processProducts_eq [of s] by blast
qed

subsection \<open>The issues normalizer\<close>

lemma processIssues_eq:
  "processIssues s = (if trim s \<in> set ISSUE_LABELS then [trim s] else [''General Question''])"
  by (auto simp: processIssues_def Let_def list_ex_iff)

lemma fallback_fixed: "processIssues ''General Question'' = [''General Question'']"
  by code_simp

text \<open>
  C3. For every completion the issues normalizer returns one element: the trimmed
  completion when it is, character for character, one of the taxonomy's labels, and
  \<open>General Question\<close> otherwise. \<open>Bug Report\<close> gives itself, \<open>not a category\<close> and
  the lower-case \<open>bug report\<close> give the fallback.
\<close>

theorem processIssues_normalizer:
  "processIssues s = (if trim s \<in> set ISSUE_LABELS then [trim s] else [''General Question''])
   \<and> length (processIssues s) = 1
   \<and> (\<exists>l. processIssues s = [l] \<and> (l \<in> set ISSUE_LABELS \<or> l = ''General Question''))
   \<and> processIssues ''Bug Report'' = [''Bug Report'']
   \<and> processIssues ''not a category'' = [''General Question'']
   \<and> processIssues ''bug report'' = [''General Question'']"
proof -
  have "processIssues ''Bug Report'' = [''Bug Report'']" by code_simp
  moreover have "processIssues ''not a category'' = [''General Question'']" by code_simp
  moreover have "processIssues ''bug report'' = [''General Question'']" by code_simp
  ultimately show ?thesis by (simp add: processIssues_eq)
qed

text \<open>
  C10. The issues normalizer is idempotent on its output: if it returns \<open>[l]\<close> for some
  completion, it returns \<open>[l]\<close> for \<open>l\<close>, for a label and for the fallback, which is not
  a label.
\<close>

theorem processIssues_idempotent:
  "processIssues s = [l] \<Longrightarrow> processIssues l = [l]"
  using fallback_fixed by (auto simp: processIssues_eq trim_trim split: if_splits)

theorem processIssues_idempotent_witness:
  "processIssues '' API Issue '' = [''API Issue'']
   \<and> processIssues ''API Issue'' = [''API Issue'']
   \<and> processIssues ''Outage?'' = [''General Question'']
   \<and> processIssues ''General Question'' = [''General Question'']
   \<and> ''General Question'' \<notin> set ISSUE_LABELS"
proof -
  have a: "processIssues '' API Issue '' = [''API Issue'']" by code_simp
  have b: "processIssues ''Outage?'' = [''General Question'']" by code_simp
  have c: "''General Question'' \<notin> set ISSUE_LABELS" by code_simp
  from a b c processIssues_idempotent [OF a] processIssues_idempotent [OF b]
  show ?thesis by simp
qed

subsection \<open>Promises\<close>

lemma first_rejection_None: "first_rejection ps = None \<longleftrightarrow> (\<forall>t e. Rejected t e \<notin> set ps)"
  by (induction ps rule: first_rejection.induct) (auto split: option.splits)

lemma Promise_all_rejects:
  "(\<exists>t e. Promise_all ps = Rejected t e) \<longleftrightarrow> (\<exists>t e. Rejected t e \<in> set ps)"
  using first_rejection_None [of ps]
  by (auto simp: Promise_all_def split: option.splits)

lemma await_response_rejected: "fails p \<Longrightarrow> \<exists>t e. await_response p = Rejected t e"
  by (cases p rule: fails.cases) simp_all

lemma outcome_cases: "(\<exists>t r. x = Fulfilled t (Response r)) \<or> fails x \<or> x = Pending"
  by (cases x rule: fails.cases) auto

subsection \<open>The handler on an accepted request\<close>

lemma prompts_distinct:
  "PROMPTS_sentiment \<noteq> PROMPTS_products"
  "PROMPTS_sentiment \<noteq> PROMPTS_issues"
  "PROMPTS_products \<noteq> PROMPTS_issues"
  by code_simp+

lemma mock_ai_simps:
  "mock_ai s p i (ai_request gw PROMPTS_sentiment v) = s"
  "mock_ai s p i (ai_request gw PROMPTS_products v) = p"
  "mock_ai s p i (ai_request gw PROMPTS_issues v) = i"
  using prompts_distinct by (simp_all add: mock_ai_def ai_request_def)

text \<open>
  With the bindings present and a truthy \<open>text\<close>, the handler makes the three calls and
  answers by what \<^verbatim>\<open>Promise.all\<close> of their promises does.
\<close>

lemma POST_accepted:
  assumes "getRequestContext pf = Inr (Some e)" and "AI e = Some ai"
    and "CLOUDFLARE_GATEWAY_ID e = Some gw" and "gw \<noteq> []"
    and "text_of parsed = Some v" and "truthy v"
  shows "POST pf (Inr parsed) =
    ([ai_request gw PROMPTS_sentiment v, ai_request gw PROMPTS_products v,
      ai_request gw PROMPTS_issues v],
     case Promise_all [await_response (ai (ai_request gw PROMPTS_sentiment v)),
                       await_response (ai (ai_request gw PROMPTS_products v)),
                       await_response (ai (ai_request gw PROMPTS_issues v))] of
       Pending \<Rightarrow> None
     | Rejected t e \<Rightarrow> Some (failure e)
     | Fulfilled t [sentimentResponse, productsResponse, issuesResponse] \<Rightarrow>
         Some (ok \<lparr>sentiment = SENTIMENT_MAP_get (toLowerCase sentimentResponse),
                   products = processProducts productsResponse,
                   issues = processIssues issuesResponse\<rparr>)
     | Fulfilled t vs \<Rightarrow> None)"
proof -
  from assms(4) obtain g gs where gw: "gw = g # gs" by (cases gw) auto
  from assms(5) have "parsed \<noteq> JNull" by auto
  with assms gw show ?thesis
    by (simp add: POST_def destructure_text_def makeAICall_def Let_def)
qed

lemma mock_platform_configured:
  "getRequestContext (mock_platform ai) = Inr (Some \<lparr>AI = Some ai, CLOUDFLARE_GATEWAY_ID = Some ''gw-1''\<rparr>)"
  "AI \<lparr>AI = Some ai, CLOUDFLARE_GATEWAY_ID = Some ''gw-1''\<rparr> = Some ai"
  "CLOUDFLARE_GATEWAY_ID \<lparr>AI = Some ai, CLOUDFLARE_GATEWAY_ID = Some ''gw-1''\<rparr> = Some ''gw-1''"
  "''gw-1'' \<noteq> []"
  by (simp_all add: mock_platform_def)

lemma text_of_request: "text_of (JObject [(''text'', v)]) = Some v"
  by simp

lemmas mock_accepted =
  POST_accepted [OF mock_platform_configured text_of_request, folded request_with_text_def]

lemma POST_fulfilled:
  assumes "getRequestContext pf = Inr (Some e)" and "AI e = Some ai"
    and "CLOUDFLARE_GATEWAY_ID e = Some gw" and "gw \<noteq> []"
    and "text_of parsed = Some v" and "truthy v"
    and "ai (ai_request gw PROMPTS_sentiment v) = Fulfilled t1 (Response s)"
    and "ai (ai_request gw PROMPTS_products v) = Fulfilled t2 (Response p)"
    and "ai (ai_request gw PROMPTS_issues v) = Fulfilled t3 (Response i)"
  shows "snd (POST pf (Inr parsed)) =
           Some (ok \<lparr>sentiment = SENTIMENT_MAP_get (toLowerCase (trim s)),
                     products = processProducts (trim p),
                     issues = processIssues (trim i)\<rparr>)"
  by (simp add: POST_accepted [OF assms(1-6)] assms(7-9) Promise_all_def)

text \<open>Every result the handler answers with was assembled from the three normalizers.\<close>

lemma POST_ok_result:
  assumes "snd (POST pf req) = Some (ok r)"
  shows "\<exists>a b c. r = \<lparr>sentiment = SENTIMENT_MAP_get (toLowerCase a),
                      products = processProducts b, issues = processIssues c\<rparr>"
  using assms
  by (auto simp: POST_def ok_def failure_def bad_request_def Let_def makeAICall_def
           split: sum.splits option.splits list.splits if_splits promise.splits prod.splits)

subsection \<open>Validation\<close>

text \<open>
  C1, as the code has it. With the bindings present and a body that parses to anything
  but \<^verbatim>\<open>null\<close>: when the body has no \<open>text\<close>, or its \<open>text\<close> is \<^verbatim>\<open>null\<close>,
  \<^verbatim>\<open>false\<close>, zero or the empty string, the handler answers 400 with the error
  \<open>Text is required\<close> and makes no inference call.
\<close>

theorem POST_rejects_falsy_text:
  assumes "getRequestContext pf = Inr (Some e)" and "AI e = Some ai"
    and "CLOUDFLARE_GATEWAY_ID e = Some gw" and "gw \<noteq> []"
    and "parsed \<noteq> JNull"
    and "text_of parsed \<in>
           {None, Some JNull, Some (JBool False), Some (JNumber (Num 0)), Some (JString [])}"
  shows "POST pf (Inr parsed) =
           ([], Some \<lparr>status = 400, body = ErrorBody ''Text is required'' None\<rparr>)"
proof -
  from assms(4) obtain g gs where gw: "gw = g # gs" by (cases gw) auto
  from assms(6) consider "text_of parsed = None"
    | t where "text_of parsed = Some t" "\<not> truthy t"
    by auto
  then show ?thesis
    using assms(1-3,5) gw
    by cases (simp_all add: POST_def destructure_text_def bad_request_def)
qed

theorem POST_rejects_falsy_text_witness:
  "POST (mock_platform mock_ok) (Inr (JObject [(''other'', JString ''x'')]))
     = ([], Some \<lparr>status = 400, body = ErrorBody ''Text is required'' None\<rparr>)
   \<and> POST (mock_platform mock_ok) (Inr (JObject [(''text'', JString [])]))
     = ([], Some \<lparr>status = 400, body = ErrorBody ''Text is required'' None\<rparr>)"
  using POST_rejects_falsy_text [where pf = "mock_platform mock_ok" and ai = mock_ok
          and e = "\<lparr>AI = Some mock_ok, CLOUDFLARE_GATEWAY_ID = Some ''gw-1''\<rparr>" and gw = "''gw-1''"
          and parsed = "JObject [(''other'', JString ''x'')]"]
        POST_rejects_falsy_text [where pf = "mock_platform mock_ok" and ai = mock_ok
          and e = "\<lparr>AI = Some mock_ok, CLOUDFLARE_GATEWAY_ID = Some ''gw-1''\<rparr>" and gw = "''gw-1''"
          and parsed = "JObject [(''text'', JString [])]"]
  by (simp add: mock_platform_def)

text \<open>
  A \<open>text\<close> of three spaces, which trims to the empty string, and a \<open>text\<close> that is the
  number 5 both pass the check: the three calls are made, and the first request is
  answered with a result.
\<close>

theorem POST_accepts_blank_and_non_string_text:
  "trim ''   '' = []
   \<and> fst (POST (mock_platform mock_ok) (request_with_text (JString ''   '')))
       = [ai_request ''gw-1'' PROMPTS_sentiment (JString ''   ''),
          ai_request ''gw-1'' PROMPTS_products (JString ''   ''),
          ai_request ''gw-1'' PROMPTS_issues (JString ''   '')]
   \<and> snd (POST (mock_platform mock_ok) (request_with_text (JString ''   '')))
       = Some \<lparr>status = 200,
               body = ResultBody
                 \<lparr>sentiment = Entry ''Neutral'' ''bg-blue-500/10 text-blue-500 hover:bg-blue-500/20'',
                  products = [], issues = [''General'']\<rparr>\<rparr>
   \<and> fst (POST (mock_platform mock_ok) (request_with_text (JNumber (Num 5))))
       = [ai_request ''gw-1'' PROMPTS_sentiment (JNumber (Num 5)),
          ai_request ''gw-1'' PROMPTS_products (JNumber (Num 5)),
          ai_request ''gw-1'' PROMPTS_issues (JNumber (Num 5))]"
proof -
  have 1: "trim ''   '' = []" by code_simp
  have 2: "trim ''neutral'' = ''neutral''" "trim ''none'' = ''none''"
    "trim ''General'' = ''General''"
    by code_simp+
  have 3: "SENTIMENT_MAP_get (toLowerCase ''neutral'') =
             Entry ''Neutral'' ''bg-blue-500/10 text-blue-500 hover:bg-blue-500/20''"
    by code_simp
  have 4: "processProducts ''none'' = []" "processIssues ''General'' = [''General'']"
    by code_simp+
  show ?thesis
    by (simp add: mock_accepted mock_ok_def mock_ai_simps Promise_all_def ok_def 1 2 3 4)
qed

subsection \<open>The dispatched calls\<close>

text \<open>
  C7, as the code has it. For every request that passes validation, each of the three
  inference calls carries the system prompt of its axis and, as its user message, the
  request's \<open>text\<close> as it was received, not trimmed, the same in all three.
\<close>

theorem POST_user_message_is_text:
  assumes "getRequestContext pf = Inr (Some e)" and "AI e = Some ai"
    and "CLOUDFLARE_GATEWAY_ID e = Some gw" and "gw \<noteq> []"
    and "text_of parsed = Some v" and "truthy v"
  shows "map messages (fst (POST pf (Inr parsed))) =
           [[(''system'', JString PROMPTS_sentiment), (''user'', v)],
            [(''system'', JString PROMPTS_products), (''user'', v)],
            [(''system'', JString PROMPTS_issues), (''user'', v)]]"
  by (simp add: POST_accepted [OF assms] ai_request_def)

theorem POST_user_message_is_text_witness:
  "map messages
     (fst (POST (mock_platform mock_ok) (Inr (JObject [(''text'', JString ''  R2 is slow '')])))) =
           [[(''system'', JString PROMPTS_sentiment), (''user'', JString ''  R2 is slow '')],
            [(''system'', JString PROMPTS_products), (''user'', JString ''  R2 is slow '')],
            [(''system'', JString PROMPTS_issues), (''user'', JString ''  R2 is slow '')]]"
  using POST_user_message_is_text [where pf = "mock_platform mock_ok" and ai = mock_ok
          and e = "\<lparr>AI = Some mock_ok, CLOUDFLARE_GATEWAY_ID = Some ''gw-1''\<rparr>" and gw = "''gw-1''"
          and parsed = "JObject [(''text'', JString ''  R2 is slow '')]"
          and v = "JString ''  R2 is slow ''"]
  by (simp add: mock_platform_def)

text \<open>
  A \<open>text\<close> with a space at each end reaches all three calls with its spaces, which is
  not the trimmed text.
\<close>

theorem POST_user_message_not_trimmed:
  "map (\<lambda>c. map_of (messages c) ''user'')
       (fst (POST (mock_platform mock_ok) (request_with_text (JString '' hi ''))))
     = [Some (JString '' hi ''), Some (JString '' hi ''), Some (JString '' hi '')]
   \<and> trim '' hi '' = ''hi''
   \<and> JString '' hi '' \<noteq> JString (trim '' hi '')"
proof -
  have "trim '' hi '' = ''hi''" by code_simp
  then show ?thesis by (simp add: mock_accepted ai_request_def)
qed

text \<open>
  C9. Within one request the three classification calls are all made whatever becomes of
  any of them, also when a call never completes: none waits for another. The handler
  answers with a result exactly when all three have completed with a completion, and
  does not answer while a call is pending and none has failed.
\<close>

theorem POST_fan_out:
  assumes "getRequestContext pf = Inr (Some e)" and "AI e = Some ai"
    and "CLOUDFLARE_GATEWAY_ID e = Some gw" and "gw \<noteq> []"
    and "text_of parsed = Some v" and "truthy v"
  shows "fst (POST pf (Inr parsed)) =
           [ai_request gw PROMPTS_sentiment v, ai_request gw PROMPTS_products v,
            ai_request gw PROMPTS_issues v]
         \<and> ((\<exists>r. snd (POST pf (Inr parsed)) = Some \<lparr>status = 200, body = ResultBody r\<rparr>)
              \<longleftrightarrow> (\<exists>t1 s t2 p t3 i.
                     ai (ai_request gw PROMPTS_sentiment v) = Fulfilled t1 (Response s)
                   \<and> ai (ai_request gw PROMPTS_products v) = Fulfilled t2 (Response p)
                   \<and> ai (ai_request gw PROMPTS_issues v) = Fulfilled t3 (Response i)))
         \<and> (snd (POST pf (Inr parsed)) = None
              \<longleftrightarrow> \<not> fails (ai (ai_request gw PROMPTS_sentiment v))
                \<and> \<not> fails (ai (ai_request gw PROMPTS_products v))
                \<and> \<not> fails (ai (ai_request gw PROMPTS_issues v))
                \<and> (ai (ai_request gw PROMPTS_sentiment v) = Pending
                   \<or> ai (ai_request gw PROMPTS_products v) = Pending
                   \<or> ai (ai_request gw PROMPTS_issues v) = Pending))"
proof -
  let ?a = "ai (ai_request gw PROMPTS_sentiment v)"
  let ?b = "ai (ai_request gw PROMPTS_products v)"
  let ?c = "ai (ai_request gw PROMPTS_issues v)"
  have post: "snd (POST pf (Inr parsed)) =
     (case Promise_all [await_response ?a, await_response ?b, await_response ?c] of
       Pending \<Rightarrow> None
     | Rejected t e \<Rightarrow> Some (failure e)
     | Fulfilled t [sentimentResponse, productsResponse, issuesResponse] \<Rightarrow>
         Some (ok \<lparr>sentiment = SENTIMENT_MAP_get (toLowerCase sentimentResponse),
                   products = processProducts productsResponse,
                   issues = processIssues issuesResponse\<rparr>)
     | Fulfilled t vs \<Rightarrow> None)"
    by (simp add: POST_accepted [OF assms])
  have calls: "fst (POST pf (Inr parsed)) =
           [ai_request gw PROMPTS_sentiment v, ai_request gw PROMPTS_products v,
            ai_request gw PROMPTS_issues v]"
    by (simp add: POST_accepted [OF assms])
  have res: "(\<exists>r. snd (POST pf (Inr parsed)) = Some \<lparr>status = 200, body = ResultBody r\<rparr>)
              \<longleftrightarrow> (\<exists>t1 s t2 p t3 i. ?a = Fulfilled t1 (Response s)
                   \<and> ?b = Fulfilled t2 (Response p) \<and> ?c = Fulfilled t3 (Response i))"
    unfolding post
    by (cases ?a rule: fails.cases; cases ?b rule: fails.cases; cases ?c rule: fails.cases)
       (simp_all add: Promise_all_def ok_def failure_def)
  have pend: "snd (POST pf (Inr parsed)) = None
              \<longleftrightarrow> \<not> fails ?a \<and> \<not> fails ?b \<and> \<not> fails ?c
                \<and> (?a = Pending \<or> ?b = Pending \<or> ?c = Pending)"
    unfolding post
    by (cases ?a rule: fails.cases; cases ?b rule: fails.cases; cases ?c rule: fails.cases)
       (simp_all add: Promise_all_def ok_def failure_def)
  from calls res pend show ?thesis by blast
qed

theorem POST_fan_out_witness:
  "fst (POST (mock_platform ai_hang) (Inr (JObject [(''text'', JString ''R2 is down'')]))) =
     [ai_request ''gw-1'' PROMPTS_sentiment (JString ''R2 is down''),
      ai_request ''gw-1'' PROMPTS_products (JString ''R2 is down''),
      ai_request ''gw-1'' PROMPTS_issues (JString ''R2 is down'')]
   \<and> ai_hang (ai_request ''gw-1'' PROMPTS_sentiment (JString ''R2 is down'')) = Pending
   \<and> snd (POST (mock_platform ai_hang) (Inr (JObject [(''text'', JString ''R2 is down'')]))) = None"
  using POST_fan_out [where pf = "mock_platform ai_hang" and ai = ai_hang
      and e = "\<lparr>AI = Some ai_hang, CLOUDFLARE_GATEWAY_ID = Some ''gw-1''\<rparr>" and gw = "''gw-1''"
      and parsed = "JObject [(''text'', JString ''R2 is down'')]" and v = "JString ''R2 is down''"]
  by (simp add: mock_platform_def ai_hang_def mock_ai_simps)

subsection \<open>Failure of a call\<close>

text \<open>
  C5. For every accepted request, if one of the three classification calls fails, the
  product detection call among them, the handler answers 500 with the error
  \<open>Failed to analyze text\<close> and a \<open>details\<close> string, whatever the other calls do: no
  result is assembled from the calls that succeeded.
\<close>

theorem POST_call_failure:
  assumes "getRequestContext pf = Inr (Some e)" and "AI e = Some ai"
    and "CLOUDFLARE_GATEWAY_ID e = Some gw" and "gw \<noteq> []"
    and "text_of parsed = Some v" and "truthy v"
    and "fails (ai (ai_request gw PROMPTS_sentiment v))
         \<or> fails (ai (ai_request gw PROMPTS_products v))
         \<or> fails (ai (ai_request gw PROMPTS_issues v))"
  shows "\<exists>d. snd (POST pf (Inr parsed)) =
           Some \<lparr>status = 500, body = ErrorBody ''Failed to analyze text'' (Some d)\<rparr>"
proof -
  let ?ps = "[await_response (ai (ai_request gw PROMPTS_sentiment v)),
              await_response (ai (ai_request gw PROMPTS_products v)),
              await_response (ai (ai_request gw PROMPTS_issues v))]"
  from assms(7) have "\<exists>t e. Rejected t e \<in> set ?ps"
    using await_response_rejected by fastforce
  then obtain t e where "Promise_all ?ps = Rejected t e"
    using Promise_all_rejects [of ?ps] by blast
  then show ?thesis
    by (simp add: POST_accepted [OF assms(1-6)] failure_def)
qed

theorem POST_call_failure_witness:
  "\<not> fails (ai_products_down (ai_request ''gw-1'' PROMPTS_sentiment (JString ''R2 is great'')))
   \<and> fails (ai_products_down (ai_request ''gw-1'' PROMPTS_products (JString ''R2 is great'')))
   \<and> \<not> fails (ai_products_down (ai_request ''gw-1'' PROMPTS_issues (JString ''R2 is great'')))
   \<and> snd (POST (mock_platform ai_products_down) (Inr (JObject [(''text'', JString ''R2 is great'')])))
       = Some \<lparr>status = 500,
               body = ErrorBody ''Failed to analyze text'' (Some ''gateway timeout'')\<rparr>"
proof -
  have "\<exists>d. snd (POST (mock_platform ai_products_down)
                  (Inr (JObject [(''text'', JString ''R2 is great'')]))) =
           Some \<lparr>status = 500, body = ErrorBody ''Failed to analyze text'' (Some d)\<rparr>"
    using POST_call_failure [where pf = "mock_platform ai_products_down" and ai = ai_products_down
          and e = "\<lparr>AI = Some ai_products_down, CLOUDFLARE_GATEWAY_ID = Some ''gw-1''\<rparr>"
          and gw = "''gw-1''"
          and parsed = "JObject [(''text'', JString ''R2 is great'')]"
          and v = "JString ''R2 is great''"]
    by (simp add: mock_platform_def ai_products_down_def mock_ai_simps)
  moreover have "snd (POST (mock_platform ai_products_down)
                        (request_with_text (JString ''R2 is great'')))
       = Some \<lparr>status = 500,
               body = ErrorBody ''Failed to analyze text'' (Some ''gateway timeout'')\<rparr>"
    by (simp add: mock_accepted ai_products_down_def mock_ai_simps Promise_all_def failure_def)
  ultimately show ?thesis
    by (simp add: request_with_text_def ai_products_down_def mock_ai_simps)
qed

subsection \<open>The assembled result\<close>

text \<open>
  C8. Two invocations given the same \<open>text\<close> and the same completions of the sentiment,
  products and issues calls answer alike, with a result: nothing else the handler reads
  (the platform, the gateway, the rest of the body, the order in which the calls settle)
  reaches the result.
\<close>

theorem POST_deterministic:
  assumes "getRequestContext pf = Inr (Some e)" and "AI e = Some ai"
    and "CLOUDFLARE_GATEWAY_ID e = Some gw" and "gw \<noteq> []"
    and "getRequestContext pf' = Inr (Some e')" and "AI e' = Some ai'"
    and "CLOUDFLARE_GATEWAY_ID e' = Some gw'" and "gw' \<noteq> []"
    and "text_of parsed = Some v" and "text_of parsed' = Some v" and "truthy v"
    and "ai (ai_request gw PROMPTS_sentiment v) = Fulfilled t1 (Response s)"
    and "ai (ai_request gw PROMPTS_products v) = Fulfilled t2 (Response p)"
    and "ai (ai_request gw PROMPTS_issues v) = Fulfilled t3 (Response i)"
    and "ai' (ai_request gw' PROMPTS_sentiment v) = Fulfilled t1' (Response s)"
    and "ai' (ai_request gw' PROMPTS_products v) = Fulfilled t2' (Response p)"
    and "ai' (ai_request gw' PROMPTS_issues v) = Fulfilled t3' (Response i)"
  shows "snd (POST pf (Inr parsed)) = snd (POST pf' (Inr parsed'))
         \<and> (\<exists>r. snd (POST pf (Inr parsed)) = Some \<lparr>status = 200, body = ResultBody r\<rparr>)"
  using POST_fulfilled [OF assms(1-4) assms(9) assms(11) assms(12-14)]
        POST_fulfilled [OF assms(5-8) assms(10) assms(11) assms(15-17)]
  by (simp add: ok_def)

theorem POST_deterministic_witness:
  "snd (POST (mock_platform ai_A) (Inr (JObject [(''text'', JString ''R2 is down'')])))
   = snd (POST platform_B
            (Inr (JObject [(''id'', JNumber (Num 7)), (''text'', JString ''R2 is down'')])))
   \<and> (\<exists>r. snd (POST (mock_platform ai_A) (Inr (JObject [(''text'', JString ''R2 is down'')])))
            = Some \<lparr>status = 200, body = ResultBody r\<rparr>)"
  by (rule POST_deterministic [where ai = ai_A
      and e = "\<lparr>AI = Some ai_A, CLOUDFLARE_GATEWAY_ID = Some ''gw-1''\<rparr>" and gw = "''gw-1''"
      and ai' = ai_B
      and e' = "\<lparr>AI = Some ai_B, CLOUDFLARE_GATEWAY_ID = Some ''gw-2''\<rparr>" and gw' = "''gw-2''"
      and v = "JString ''R2 is down''"
      and s = "''Negative''" and p = "''R2, Foo''" and i = "''Bug Report''"
      and ?t1.0 = 1 and ?t2.0 = 2 and ?t3.0 = 3 and t1' = 9 and t2' = 8 and t3' = 7])
     (simp_all add: mock_platform_def platform_B_def ai_A_def ai_B_def mock_ai_simps)

lemma processProducts_matches:
  "p \<in> set (processProducts s) \<Longrightarrow>
     \<exists>cp \<in> set CLOUDFLARE_PRODUCTS. includes_str (toLowerCase p) (toLowerCase cp)"
  by (auto simp: processProducts_def list_ex_iff split: if_splits)

text \<open>
  C6, as the code has it. For every successful request, every string of the response's
  \<open>products\<close> contains, compared in lower case, the name of a catalog entry as a
  substring. The string itself need not be a catalog entry.
\<close>

theorem POST_products_contain_catalog_name:
  assumes "snd (POST pf req) = Some \<lparr>status = 200, body = ResultBody r\<rparr>"
  shows "\<forall>p \<in> set (products r).
           \<exists>cp \<in> set CLOUDFLARE_PRODUCTS. includes_str (toLowerCase p) (toLowerCase cp)"
proof -
  from assms obtain b where "products r = processProducts b"
    using POST_ok_result [of pf req r] by (auto simp: ok_def)
  then show ?thesis by (auto dest: processProducts_matches)
qed

lemma ai_loose_result:
  "snd (POST (mock_platform ai_loose) (request_with_text (JString ''R2 lost my files''))) =
     Some \<lparr>status = 200,
           body = ResultBody
             \<lparr>sentiment = Entry ''Negative'' ''bg-red-500/10 text-red-500 hover:bg-red-500/20'',
              products = [''Cloudflare R2'', ''pages''], issues = [''Bug Report'']\<rparr>\<rparr>"
proof -
  have 1: "trim ''Negative'' = ''Negative''"
    "trim ''Cloudflare R2, Foo, pages'' = ''Cloudflare R2, Foo, pages''"
    "trim ''Bug Report'' = ''Bug Report''"
    by code_simp+
  have 2: "SENTIMENT_MAP_get (toLowerCase ''Negative'') =
             Entry ''Negative'' ''bg-red-500/10 text-red-500 hover:bg-red-500/20''"
    by code_simp
  have 3: "processProducts ''Cloudflare R2, Foo, pages'' = [''Cloudflare R2'', ''pages'']"
    "processIssues ''Bug Report'' = [''Bug Report'']"
    by code_simp+
  show ?thesis
    by (simp add: mock_accepted ai_loose_def mock_ai_simps Promise_all_def ok_def 1 2 3)
qed

theorem POST_products_contain_catalog_name_witness:
  "set (products \<lparr>sentiment = Entry ''Negative'' ''bg-red-500/10 text-red-500 hover:bg-red-500/20'',
                  products = [''Cloudflare R2'', ''pages''], issues = [''Bug Report'']\<rparr>)
     = {''Cloudflare R2'', ''pages''}
   \<and> (\<exists>cp \<in> set CLOUDFLARE_PRODUCTS. includes_str (toLowerCase ''Cloudflare R2'') (toLowerCase cp))
   \<and> (\<exists>cp \<in> set CLOUDFLARE_PRODUCTS. includes_str (toLowerCase ''pages'') (toLowerCase cp))"
  using POST_products_contain_catalog_name [OF ai_loose_result] by simp

text \<open>
  The completion \<open>Cloudflare R2, Foo, pages\<close> puts \<open>Cloudflare R2\<close> into the
  response's \<open>products\<close>, which is no entry of the catalog, in any case of its letters.
\<close>

theorem POST_products_outside_catalog:
  "snd (POST (mock_platform ai_loose) (request_with_text (JString ''R2 lost my files'')))
     = Some \<lparr>status = 200,
             body = ResultBody
               \<lparr>sentiment = Entry ''Negative'' ''bg-red-500/10 text-red-500 hover:bg-red-500/20'',
                products = [''Cloudflare R2'', ''pages''], issues = [''Bug Report'']\<rparr>\<rparr>
   \<and> ''Cloudflare R2'' \<notin> set CLOUDFLARE_PRODUCTS
   \<and> \<not> list_ex (\<lambda>cp. toLowerCase cp = toLowerCase ''Cloudflare R2'') CLOUDFLARE_PRODUCTS"
proof -
  have 4: "''Cloudflare R2'' \<notin> set CLOUDFLARE_PRODUCTS" by code_simp
  have 5: "\<not> list_ex (\<lambda>cp. toLowerCase cp = toLowerCase ''Cloudflare R2'') CLOUDFLARE_PRODUCTS"
    by code_simp
  from ai_loose_result 4 5 show ?thesis by simp
qed

lemma SENTIMENT_MAP_get_eq:
  "SENTIMENT_MAP_get key =
     (if key = ''positive''
        then Entry ''Positive'' ''bg-green-500/10 text-green-500 hover:bg-green-500/20''
      else if key = ''negative''
        then Entry ''Negative'' ''bg-red-500/10 text-red-500 hover:bg-red-500/20''
      else if key = ''neutral''
        then Entry ''Neutral'' ''bg-blue-500/10 text-blue-500 hover:bg-blue-500/20''
      else if key = ''constructor'' then ObjectConstructor
      else if key = ''__proto__'' then ObjectPrototype
      else Undefined)"
  by (simp add: SENTIMENT_MAP_get_def SENTIMENT_MAP_def)

text \<open>
  C4, as the code has it. The handler lower-cases the trimmed sentiment completion and
  reads the sentiment table under that key. For the keys \<open>positive\<close>, \<open>negative\<close> and
  \<open>neutral\<close> the read gives the entry with its label and styling hint; for
  \<open>constructor\<close> and \<open>__proto__\<close> it gives what the table inherits under that name;
  for every other key it gives \<^verbatim>\<open>undefined\<close>. Whatever the read gives is the
  \<open>sentiment\<close> of the result, answered with status 200: no error, no default.
\<close>

theorem POST_sentiment_lookup:
  assumes "getRequestContext pf = Inr (Some e)" and "AI e = Some ai"
    and "CLOUDFLARE_GATEWAY_ID e = Some gw" and "gw \<noteq> []"
    and "text_of parsed = Some v" and "truthy v"
    and "ai (ai_request gw PROMPTS_sentiment v) = Fulfilled t1 (Response s)"
    and "ai (ai_request gw PROMPTS_products v) = Fulfilled t2 (Response p)"
    and "ai (ai_request gw PROMPTS_issues v) = Fulfilled t3 (Response i)"
  shows "snd (POST pf (Inr parsed)) =
           Some \<lparr>status = 200,
                 body = ResultBody
                   \<lparr>sentiment =
                      (if toLowerCase (trim s) = ''positive''
                         then Entry ''Positive'' ''bg-green-500/10 text-green-500 hover:bg-green-500/20''
                       else if toLowerCase (trim s) = ''negative''
                         then Entry ''Negative'' ''bg-red-500/10 text-red-500 hover:bg-red-500/20''
                       else if toLowerCase (trim s) = ''neutral''
                         then Entry ''Neutral'' ''bg-blue-500/10 text-blue-500 hover:bg-blue-500/20''
                       else if toLowerCase (trim s) = ''constructor'' then ObjectConstructor
                       else if toLowerCase (trim s) = ''__proto__'' then ObjectPrototype
                       else Undefined),
                    products = processProducts (trim p),
                    issues = processIssues (trim i)\<rparr>\<rparr>"
  using POST_fulfilled [OF assms] SENTIMENT_MAP_get_eq [of "toLowerCase (trim s)"]
  by (simp add: ok_def)

theorem POST_sentiment_lookup_witness:
  "snd (POST (mock_platform ai_unsure) (Inr (JObject [(''text'', JString ''hello'')]))) =
     Some \<lparr>status = 200,
           body = ResultBody \<lparr>sentiment = Undefined, products = [], issues = [''General'']\<rparr>\<rparr>"
proof -
  have 1: "toLowerCase (trim ''Mixed'') = ''mixed''" by code_simp
  have 2: "processProducts (trim ''none'') = []" by code_simp
  have 3: "processIssues (trim ''General'') = [''General'']" by code_simp
  show ?thesis
    using POST_sentiment_lookup [where pf = "mock_platform ai_unsure" and ai = ai_unsure
      and e = "\<lparr>AI = Some ai_unsure, CLOUDFLARE_GATEWAY_ID = Some ''gw-1''\<rparr>" and gw = "''gw-1''"
      and parsed = "JObject [(''text'', JString ''hello'')]" and v = "JString ''hello''"
      and s = "''Mixed''" and p = "''none''" and i = "''General''"
      and ?t1.0 = 1 and ?t2.0 = 2 and ?t3.0 = 3]
    by (simp add: mock_platform_def ai_unsure_def mock_ai_simps 1 2 3)
qed

text \<open>
  The sentiment completion \<open>__proto__\<close> is none of the three keys, and the
  \<open>sentiment\<close> of the result is not \<^verbatim>\<open>undefined\<close> but the prototype object.
\<close>

theorem POST_sentiment_inherited_property:
  "toLowerCase (trim ''__proto__'') \<notin> {''positive'', ''negative'', ''neutral''}
   \<and> snd (POST (mock_platform ai_proto) (request_with_text (JString ''hello'')))
       = Some \<lparr>status = 200,
               body = ResultBody
                 \<lparr>sentiment = ObjectPrototype, products = [], issues = [''General'']\<rparr>\<rparr>
   \<and> ObjectPrototype \<noteq> Undefined"
proof -
  have 1: "toLowerCase (trim ''__proto__'') = ''__proto__''" "trim ''__proto__'' = ''__proto__''"
    "trim ''none'' = ''none''" "trim ''General'' = ''General''"
    by code_simp+
  have 2: "toLowerCase ''__proto__'' = ''__proto__''" by code_simp
  have 3: "processProducts ''none'' = []" by code_simp
  have 4: "processIssues ''General'' = [''General'']" by code_simp
  show ?thesis
    by (simp add: mock_accepted ai_proto_def mock_ai_simps Promise_all_def ok_def
        SENTIMENT_MAP_get_eq 1 2 3 4)
qed

end
